theory Spec2Isabelle
  imports Complex_Main "HOL-Library.Sublist"
begin

section \<open>Python text operations used by the control loop\<close>

text \<open>
  Python text is modelled as \<open>string\<close>, a list of 8-bit characters read as the code points
  below 256.  The operations below are the ones the sources call: \<open>in\<close>, \<open>str.strip()\<close>,
  \<open>str.split(sep)\<close>, \<open>str.lower()\<close>, \<open>str.replace\<close> and slicing.  Separators are the
  non-empty literals of the sources.
\<close>

fun py_in :: "string \<Rightarrow> string \<Rightarrow> bool" where
  "py_in p [] = (p = [])"
| "py_in p (c # cs) = (prefix p (c # cs) \<or> py_in p cs)"

definition py_isspace :: "char \<Rightarrow> bool" where
  "py_isspace c = (let n = (of_char c :: nat) in
     (9 \<le> n \<and> n \<le> 13) \<or> (28 \<le> n \<and> n \<le> 32) \<or> n = 133 \<or> n = 160)"

definition py_strip :: "string \<Rightarrow> string" where
  "py_strip s = rev (dropWhile py_isspace (rev (dropWhile py_isspace s)))"

definition py_lower_char :: "char \<Rightarrow> char" where
  "py_lower_char c = (let n = (of_char c :: nat) in
     if (65 \<le> n \<and> n \<le> 90) \<or> (192 \<le> n \<and> n \<le> 222 \<and> n \<noteq> 215)
     then char_of (n + 32) else c)"

definition py_lower :: "string \<Rightarrow> string" where
  "py_lower s = map py_lower_char s"

text \<open>
  \<open>py_split_from sep k s\<close> scans \<open>s\<close> from the left as \<open>str.split(sep)\<close> does; \<open>k\<close> counts
  the characters of a separator just matched that are still to be skipped, so matches do not
  overlap.
\<close>

fun py_split_from :: "string \<Rightarrow> nat \<Rightarrow> string \<Rightarrow> string list" where
  "py_split_from sep k [] = [[]]"
| "py_split_from sep k (c # cs) =
     (if 0 < k then py_split_from sep (k - 1) cs
      else if prefix sep (c # cs) then [] # py_split_from sep (length sep - 1) cs
      else (case py_split_from sep 0 cs of
              [] \<Rightarrow> [[c]]
            | h # t \<Rightarrow> (c # h) # t))"

definition py_split :: "string \<Rightarrow> string \<Rightarrow> string list" where
  "py_split sep s = py_split_from sep 0 s"

definition nl :: string where
  "nl = [CHR 0x0A]"

section \<open>Error classifier (\<open>AgentPipeline._parse_freecad_error\<close>)\<close>

definition hint_draft :: string where
  "hint_draft = ''DRAFT FAILED: You must apply draft BEFORE any fillets. Reorder: box ''
     @ [CHR 0xE2, CHR 0x86, CHR 0x92] @ '' draft '' @ [CHR 0xE2, CHR 0x86, CHR 0x92]
     @ '' fillet '' @ [CHR 0xE2, CHR 0x86, CHR 0x92] @ '' shell''"

definition hint_null :: string where
  "hint_null = ''NULL SHAPE: Boolean operation failed. Ensure objects overlap and have valid geometry.''"

definition hint_fuse :: string where
  "hint_fuse = ''FUSION FAILED: Objects DO NOT intersect. Move objects closer (overlap by at least 0.1mm) or check dimensions.''"

definition hint_fillet :: "string \<Rightarrow> string" where
  "hint_fillet s = ''FILLET ERROR: ''
     @ (if py_in ''ValueError:'' s then last (py_split ''ValueError: '' s) else s)
     @ ''. Reduce fillet radius.''"

definition hint_watertight :: string where
  "hint_watertight = ''NON-MANIFOLD: Mesh has holes. Check boolean operations created valid solids.''"

definition hint_empty :: string where
  "hint_empty = ''EMPTY RESULT: No geometry created. Verify your logic creates actual shapes.''"

definition hint_makefillet :: string where
  "hint_makefillet = ''FILLET FAILED: Radius may be too large for edge length, or edge selection returned nothing.''"

definition hint_generic :: "string \<Rightarrow> string" where
  "hint_generic stderr = ''ERROR: '' @ take 300 stderr"

text \<open>
  The line the rules look at: \<open>lines[-1]\<close>, overwritten by every line that contains
  \<open>ValueError:\<close> while the loop walks the lines in order.
\<close>

definition select_error_line :: "string \<Rightarrow> string" where
  "select_error_line stderr =
     (let lines = py_split nl (py_strip stderr)
      in foldl (\<lambda>error_line line. if py_in ''ValueError:'' line then line else error_line)
           (last lines) lines)"

definition parse_freecad_error :: "string \<Rightarrow> string" where
  "parse_freecad_error stderr =
     (let s = py_lower (select_error_line stderr) in
      if py_in ''apply_draft failed'' s \<or> py_in ''draft'' s \<and> py_in ''before'' s then hint_draft
      else if py_in ''null shape'' s then hint_null
      else if py_in ''fuse_objects failed'' s then hint_fuse
      else if py_in ''fillet'' s \<and> py_in ''too large'' s then hint_fillet s
      else if py_in ''not watertight'' s then hint_watertight
      else if py_in ''empty'' s then hint_empty
      else if py_in ''makefillet'' s then hint_makefillet
      else hint_generic stderr)"

subsection \<open>The classifier as the specification words it\<close>

text \<open>
  An ordered table of (pattern, hint) rules and the first rule whose pattern holds.
\<close>

definition rule_table :: "((string \<Rightarrow> bool) \<times> (string \<Rightarrow> string)) list" where
  "rule_table =
     [(\<lambda>s. py_in ''apply_draft failed'' s \<or> py_in ''draft'' s \<and> py_in ''before'' s, \<lambda>s. hint_draft),
      (\<lambda>s. py_in ''null shape'' s, \<lambda>s. hint_null),
      (\<lambda>s. py_in ''fuse_objects failed'' s, \<lambda>s. hint_fuse),
      (\<lambda>s. py_in ''fillet'' s \<and> py_in ''too large'' s, hint_fillet),
      (\<lambda>s. py_in ''not watertight'' s, \<lambda>s. hint_watertight),
      (\<lambda>s. py_in ''empty'' s, \<lambda>s. hint_empty),
      (\<lambda>s. py_in ''makefillet'' s, \<lambda>s. hint_makefillet)]"

fun first_match :: "((string \<Rightarrow> bool) \<times> (string \<Rightarrow> string)) list \<Rightarrow> string \<Rightarrow> string \<Rightarrow> string" where
  "first_match [] s dflt = dflt"
| "first_match ((p, h) # rules) s dflt = (if p s then h s else first_match rules s dflt)"

text \<open>
  The classifier read on the whole lower-cased diagnostic text, and the line selection as a
  description: the last line that contains \<open>ValueError:\<close> when there is one, the last line
  otherwise.
\<close>

definition spec_classify_whole_text :: "string \<Rightarrow> string" where
  "spec_classify_whole_text stderr = first_match rule_table (py_lower stderr) (hint_generic stderr)"

definition spec_selected_line :: "string \<Rightarrow> string" where
  "spec_selected_line stderr =
     (let lines = py_split nl (py_strip stderr)
          ; hits = filter (py_in ''ValueError:'') lines
      in if hits = [] then last lines else last hits)"

section \<open>Exceptions\<close>

text \<open>
  The exception classes the control loop tells apart: \<open>GeometryError\<close> (module \<open>main\<close>),
  FastAPI's \<open>HTTPException\<close> with its status code and detail, \<open>ValueError\<close>, and any other
  exception, each with its message.
\<close>

datatype exn =
    GeometryError string
  | HTTPException nat string
  | ValueError string
  | OtherError string

fun py_str_exn :: "exn \<Rightarrow> string" where
  "py_str_exn (GeometryError m) = m"
| "py_str_exn (HTTPException c m) = m"
| "py_str_exn (ValueError m) = m"
| "py_str_exn (OtherError m) = m"

section \<open>Mesh validator (\<open>validate_mesh\<close>)\<close>

text \<open>
  A Python float is a real number, an infinity or NaN; \<open>py_le_zero v\<close> is \<open>v <= 0\<close>.  What
  \<open>trimesh.load\<close> gives for the mesh file is either an exception or a mesh, of which the
  validator reads four attributes.
\<close>

datatype pyfloat = Num real | PosInf | NegInf | NaN

fun py_le_zero :: "pyfloat \<Rightarrow> bool" where
  "py_le_zero (Num r) = (r \<le> 0)"
| "py_le_zero NegInf = True"
| "py_le_zero PosInf = False"
| "py_le_zero NaN = False"

record mesh =
  mesh_is_empty :: bool
  mesh_is_watertight :: bool
  mesh_volume :: pyfloat
  mesh_faces :: nat

datatype load_result = LoadRaises string | Loaded mesh

text \<open>
  \<open>validate_mesh file_exists load\<close>: \<open>Inl\<close> is the exception that leaves the function, \<open>Inr\<close>
  the warnings it logged before returning \<open>None\<close>.
\<close>

definition validate_mesh :: "bool \<Rightarrow> load_result \<Rightarrow> exn + string list" where
  "validate_mesh file_exists load =
     (if \<not> file_exists then Inr []
      else case load of
             LoadRaises e \<Rightarrow> Inr [''Mesh validation warning: '' @ e]
           | Loaded m \<Rightarrow>
               if mesh_is_empty m then Inl (GeometryError ''Generated mesh is empty.'')
               else if \<not> mesh_is_watertight m
                 then Inl (GeometryError ''Generated mesh is not watertight (non-manifold).'')
               else if py_le_zero (mesh_volume m)
                 then Inl (GeometryError ''Generated mesh has zero or negative volume.'')
               else if mesh_faces m = 0 then Inl (GeometryError ''Generated mesh has no faces.'')
               else Inr [])"

section \<open>Sandbox executor (\<open>_run_docker_execution\<close>)\<close>

text \<open>
  What happens in the executor is the environment's choice.  Before its \<open>try\<close> block the
  function creates the scratch directory and writes the script into it; either step may raise,
  and that exception leaves the function.  Inside the \<open>try\<close> block the container runs to
  completion with its output streams and return code, \<open>asyncio.wait_for\<close> times out, or
  launching it raises; the function turns each of these into the triple (stdout, stderr,
  return code).  The timeout is the default of 30 seconds, the only one the callers use.  The
  scratch directory it also returns is described by \<open>workdir\<close>: which output files exist after
  the run, what loading the mesh file gives, whether writing the archive raises, and whether
  removing the directory fails.
\<close>

datatype docker_event =
    Completed string string int
  | TimedOut
  | LaunchRaised string
  | MkdirRaised string
  | WriteRaised string

fun run_docker_execution :: "docker_event \<Rightarrow> exn + string \<times> string \<times> int" where
  "run_docker_execution (Completed out err rc) = Inr (out, err, rc)"
| "run_docker_execution TimedOut = Inr ([], ''TIMEOUT: Execution exceeded 30s limit'', 124)"
| "run_docker_execution (LaunchRaised e) = Inr ([], e, 1)"
| "run_docker_execution (MkdirRaised e) = Inl (OtherError e)"
| "run_docker_execution (WriteRaised e) = Inl (OtherError e)"

record workdir =
  job_id :: string
  step_exists :: bool
  stl_exists :: bool
  script_exists :: bool
  stl_load :: load_result
  zip_raises :: "string option"
  rmtree_fails :: bool

record sandbox_reply =
  event :: docker_event
  dir :: workdir

text \<open>
  The scratch directories that exist under the temporary directory, by job identifier.
  \<open>work_dir.mkdir(parents=True, exist_ok=True)\<close> adds the directory of the job unless it
  raises; nothing else in the executor changes that set.
\<close>

fun mkdir_done :: "docker_event \<Rightarrow> bool" where
  "mkdir_done (MkdirRaised e) = False"
| "mkdir_done ev = True"

definition executor_scratch :: "sandbox_reply \<Rightarrow> string set \<Rightarrow> string set" where
  "executor_scratch r S = (if mkdir_done (event r) then insert (job_id (dir r)) S else S)"

section \<open>Scratch directory removal\<close>

text \<open>
  \<open>shutil.rmtree\<close> removes the directory, or raises when the directory is not there or the
  removal fails.  The background task \<open>cleanup_workdir\<close> catches that and logs; the failure
  path calls \<open>rmtree\<close> with \<open>ignore_errors=True\<close>.  Each gives the exception that escapes
  (\<open>None\<close> when none does) and the directories left; the task also gives its log line.
\<close>

definition rmtree :: "workdir \<Rightarrow> string set \<Rightarrow> exn option \<times> string set" where
  "rmtree d S =
     (if rmtree_fails d \<or> job_id d \<notin> S then (Some (OtherError ''rmtree failed''), S)
      else (None, S - {job_id d}))"

definition cleanup_workdir :: "workdir \<Rightarrow> string set \<Rightarrow> (exn option \<times> string) \<times> string set" where
  "cleanup_workdir d S =
     (case rmtree d S of
        (None, S') \<Rightarrow> ((None, ''Cleaned up work directory''), S')
      | (Some e, S') \<Rightarrow> ((None, ''Cleanup failed: '' @ py_str_exn e), S'))"

definition rmtree_ignore_errors :: "workdir \<Rightarrow> string set \<Rightarrow> exn option \<times> string set" where
  "rmtree_ignore_errors d S = (case rmtree d S of (err, S') \<Rightarrow> (None, S'))"

text \<open>
  The background tasks of a request run after its response has been sent, in the order in
  which they were added.
\<close>

fun run_background :: "workdir list \<Rightarrow> string set \<Rightarrow> string set" where
  "run_background [] S = S"
| "run_background (d # ds) S = run_background ds (snd (cleanup_workdir d S))"

section \<open>Execution and packaging (\<open>_run_freecad_generation\<close>)\<close>

text \<open>
  The events a job leaves behind, in order: a call of the code generation with the attempt
  ordinal and the feedback it is given, a call of the sandbox executor with the script, the
  scheduling of the removal task, and the immediate removal.
\<close>

datatype trace_event =
    GenCall nat "string option"
  | SandboxCall nat string
  | CleanupScheduled
  | CleanupNow

datatype artifact = StepFile | StlFile | ZipFile "string list"

record file_response =
  path :: artifact
  filename :: string
  media_type :: string
  retry_count :: "nat option"

definition zip_members :: "workdir \<Rightarrow> string list" where
  "zip_members d =
     (if step_exists d then [''render.step''] else [])
     @ (if stl_exists d then [''render.stl''] else [])
     @ (if script_exists d then [''model_gen.py''] else [])"

text \<open>
  The body of the \<open>try\<close> block.  \<open>retry\<close> is the \<open>X-Retry-Count\<close> header of \<open>extra_headers\<close>;
  the token, timing and mesh-metadata headers carry no control flow and are left out.
\<close>

definition package_output :: "nat option \<Rightarrow> string \<Rightarrow> workdir \<Rightarrow> exn + file_response" where
  "package_output retry fmt d =
     (if fmt = ''zip'' \<or> fmt = ''both'' then
        (case zip_raises d of
           Some e \<Rightarrow> Inl (OtherError e)
         | None \<Rightarrow> Inr \<lparr>path = ZipFile (zip_members d),
                         filename = ''render_'' @ job_id d @ ''.zip'',
                         media_type = ''application/zip'', retry_count = retry\<rparr>)
      else
        (let res_path = (if fmt = ''step'' \<and> step_exists d then StepFile else StlFile);
             res_exists = (case res_path of StepFile \<Rightarrow> step_exists d | _ \<Rightarrow> stl_exists d)
         in if \<not> res_exists then Inl (HTTPException 500 ''Output file missing from container'')
            else Inr \<lparr>path = res_path, filename = ''render.'' @ fmt,
                      media_type = ''application/octet-stream'', retry_count = retry\<rparr>))"

definition try_body ::
  "nat option \<Rightarrow> string \<Rightarrow> string \<times> string \<times> int \<Rightarrow> workdir \<Rightarrow> exn + file_response" where
  "try_body retry fmt reply d =
     (case reply of
        (stdout, stderr, code) \<Rightarrow>
          if code \<noteq> 0 then Inl (GeometryError (''FreeCAD Error: '' @ stderr))
          else
            (case (if stl_exists d then validate_mesh (stl_exists d) (stl_load d)
                   else Inr []) of
               Inl e \<Rightarrow> Inl e
             | Inr warnings \<Rightarrow> package_output retry fmt d))"

text \<open>
  The exception that leaves the \<open>except\<close> block: a \<open>GeometryError\<close> or \<open>HTTPException\<close> as it
  is, anything else as status 500.
\<close>

fun reraise :: "exn \<Rightarrow> exn" where
  "reraise (GeometryError m) = GeometryError m"
| "reraise (HTTPException c m) = HTTPException c m"
| "reraise e = HTTPException 500 (py_str_exn e)"

text \<open>
  The whole function on the set of scratch directories.  The executor is called before the
  \<open>try\<close> block, so an exception of the executor leaves the function as it is, past the
  \<open>except\<close> block.  A response is returned with the removal task added to the background
  tasks; an exception inside the \<open>try\<close> block is answered by the immediate removal.
\<close>

record outcome =
  outcome_result :: "exn + file_response"
  outcome_events :: "trace_event list"
  outcome_scratch :: "string set"
  outcome_tasks :: "workdir list"

definition run_freecad_generation_fs ::
  "nat option \<Rightarrow> string \<Rightarrow> sandbox_reply \<Rightarrow> string set \<Rightarrow> outcome" where
  "run_freecad_generation_fs retry fmt r S =
     (let S1 = executor_scratch r S in
      case run_docker_execution (event r) of
        Inl e \<Rightarrow> \<lparr>outcome_result = Inl e, outcome_events = [], outcome_scratch = S1, outcome_tasks = []\<rparr>
      | Inr reply \<Rightarrow>
          (case try_body retry fmt reply (dir r) of
             Inr response \<Rightarrow>
               \<lparr>outcome_result = Inr response, outcome_events = [CleanupScheduled], outcome_scratch = S1,
                 outcome_tasks = [dir r]\<rparr>
           | Inl e \<Rightarrow>
               (case rmtree_ignore_errors (dir r) S1 of
                  (Some e', S2) \<Rightarrow>
                    \<lparr>outcome_result = Inl e', outcome_events = [CleanupNow], outcome_scratch = S2, outcome_tasks = []\<rparr>
                | (None, S2) \<Rightarrow>
                    \<lparr>outcome_result = Inl (reraise e), outcome_events = [CleanupNow], outcome_scratch = S2,
                      outcome_tasks = []\<rparr>)))"

text \<open>What the caller sees of it: the response or exception, and the events.\<close>

definition run_freecad_generation ::
  "nat option \<Rightarrow> string \<Rightarrow> sandbox_reply \<Rightarrow> (exn + file_response) \<times> trace_event list" where
  "run_freecad_generation retry fmt r =
     (outcome_result (run_freecad_generation_fs retry fmt r {}),
      outcome_events (run_freecad_generation_fs retry fmt r {}))"

text \<open>
  \<open>render_from_script\<close> (the \<open>/render\<close> endpoint) hands the script of the request to the same
  function, once, with no extra headers.
\<close>

definition render_from_script ::
  "(string \<Rightarrow> sandbox_reply) \<Rightarrow> string \<Rightarrow> string
     \<Rightarrow> (exn + file_response) \<times> trace_event list" where
  "render_from_script sb scad_code fmt =
     (if scad_code = [] then (Inl (HTTPException 400 ''scad_code is required''), [])
      else case run_freecad_generation None fmt (sb scad_code) of
             (res, evs) \<Rightarrow> (res, SandboxCall 0 scad_code # evs))"

section \<open>Code generation (\<open>AgentPipeline.run\<close>, \<open>_generate_code\<close>)\<close>

text \<open>
  The model service is the environment: for an attempt and its feedback it either raises or
  answers with a text.  \<open>_generate_code\<close> cuts the script out of the answer, wraps it in a
  function when the definition is missing, scans it for the disallowed patterns and puts it
  between the fixed header and footer.  Spec extraction never raises and only feeds the
  prompt of the model; it is part of the environment here.
\<close>

definition py_index :: "'a list \<Rightarrow> nat \<Rightarrow> exn + 'a" where
  "py_index xs i =
     (if i < length xs then Inr (xs ! i) else Inl (OtherError ''list index out of range''))"

definition extract_code :: "string \<Rightarrow> exn + string" where
  "extract_code text =
     (if py_in ''```python'' text then
        (case py_index (py_split ''```python'' text) 1 of
           Inl e \<Rightarrow> Inl e
         | Inr t \<Rightarrow> py_index (py_split ''```'' t) 0)
      else if py_in ''```'' text then
        (case py_index (py_split ''```'' text) 1 of
           Inl e \<Rightarrow> Inl e
         | Inr t \<Rightarrow> py_index (py_split ''```'' t) 0)
      else Inr text)"

definition py_replace_nl :: "string \<Rightarrow> string" where
  "py_replace_nl text = concat (map (\<lambda>c. if c = CHR 0x0A then nl @ ''    '' else [c]) text)"

definition ensure_function :: "string \<Rightarrow> string" where
  "ensure_function text =
     (if \<not> py_in ''def generate_model'' text
      then ''def generate_model(utils, step_path, stl_path):'' @ nl
           @ ''    from FreeCAD import Base'' @ nl @ ''    '' @ py_replace_nl text
      else text)"

definition dangerous :: "string list" where
  "dangerous = [''subprocess'', ''os.system'', ''eval('', ''exec('', ''__import__'', ''os.popen'']"

fun security_scan :: "string list \<Rightarrow> string \<Rightarrow> exn option" where
  "security_scan [] text = None"
| "security_scan (pattern # rest) text =
     (if py_in pattern text
      then Some (ValueError (''Security: blocked pattern '' @ [CHR 0x27] @ pattern @ [CHR 0x27]))
      else security_scan rest text)"

definition script_header :: string where
  "script_header = ''import os, sys'' @ nl
     @ ''sys.path.append('/app/lib')'' @ nl
     @ ''from freecad_utils import PartUtils'' @ nl
     @ ''import FreeCAD'' @ nl
     @ ''from FreeCAD import Base'' @ nl @ nl"

definition script_footer :: string where
  "script_footer = nl @ nl
     @ ''if __name__ == '__main__':'' @ nl
     @ ''    utils = PartUtils()'' @ nl
     @ ''    generate_model(utils,'' @ nl
     @ ''                   os.environ.get('STEP_OUTPUT', 'output.step'),'' @ nl
     @ ''                   os.environ.get('STL_OUTPUT', 'output.stl'))'' @ nl"

definition generate_code :: "string \<Rightarrow> exn + string" where
  "generate_code response_text =
     (case extract_code response_text of
        Inl e \<Rightarrow> Inl e
      | Inr t \<Rightarrow>
          (let text = ensure_function t in
           case security_scan dangerous text of
             Some e \<Rightarrow> Inl e
           | None \<Rightarrow> Inr (script_header @ py_strip text @ script_footer)))"

section \<open>Retry controller (\<open>generate_from_text\<close>)\<close>

record request =
  prompt :: string
  format :: string
  previous_code :: "string option"
  gemini_api_key :: "string option"

record world =
  init_raises :: "string option"
  llm :: "nat \<Rightarrow> string option \<Rightarrow> string + string"
  sandbox :: "nat \<Rightarrow> string \<Rightarrow> sandbox_reply"

fun py_truthy :: "string option \<Rightarrow> bool" where
  "py_truthy None = False"
| "py_truthy (Some s) = (s \<noteq> [])"

definition pipeline_run :: "world \<Rightarrow> nat \<Rightarrow> string option \<Rightarrow> exn + string" where
  "pipeline_run w attempt feedback =
     (case llm w attempt feedback of
        Inl e \<Rightarrow> Inl (OtherError e)
      | Inr response_text \<Rightarrow> generate_code response_text)"

text \<open>
  The body of the \<open>try\<close> block of one attempt: the feedback choice, the code generation, and
  the execution and packaging of the script.
\<close>

definition choose_feedback :: "request \<Rightarrow> nat \<Rightarrow> string option \<Rightarrow> string option" where
  "choose_feedback rq attempt feedback_msg =
     (if py_truthy (previous_code rq) \<and> attempt = 0 then previous_code rq else feedback_msg)"

definition attempt_body ::
  "world \<Rightarrow> request \<Rightarrow> nat \<Rightarrow> string option \<Rightarrow> (exn + file_response) \<times> trace_event list" where
  "attempt_body w rq attempt feedback_msg =
     (let feedback = choose_feedback rq attempt feedback_msg in
      case pipeline_run w attempt feedback of
        Inl e \<Rightarrow> (Inl e, [GenCall attempt feedback])
      | Inr fc_code \<Rightarrow>
          (case run_freecad_generation (if 0 < attempt then Some attempt else None) (format rq)
                  (sandbox w attempt fc_code) of
             (res, effects) \<Rightarrow>
               (res, [GenCall attempt feedback, SandboxCall attempt fc_code] @ effects)))"

definition after_loop :: "exn option \<Rightarrow> exn" where
  "after_loop last_error =
     HTTPException 400 (''Generation failed after 3 attempts: ''
        @ (case last_error of None \<Rightarrow> ''None'' | Some e \<Rightarrow> py_str_exn e))"

text \<open>
  \<open>for attempt in range(3)\<close>: the loop over the remaining ordinals, with the loop variables
  \<open>feedback_msg\<close> and \<open>last_error\<close>.  Only a \<open>GeometryError\<close> is caught; \<open>break\<close> and the end
  of the range both reach the \<open>raise\<close> after the loop.
\<close>

fun retry_loop ::
  "world \<Rightarrow> request \<Rightarrow> nat list \<Rightarrow> string option \<Rightarrow> exn option
     \<Rightarrow> (exn + file_response) \<times> trace_event list" where
  "retry_loop w rq [] feedback_msg last_error = (Inl (after_loop last_error), [])"
| "retry_loop w rq (attempt # rest) feedback_msg last_error =
     (case attempt_body w rq attempt feedback_msg of
        (Inr response, evs) \<Rightarrow> (Inr response, evs)
      | (Inl (GeometryError m), evs) \<Rightarrow>
          if attempt < 2 then
            (case retry_loop w rq rest (Some (parse_freecad_error m)) (Some (GeometryError m)) of
               (res, evs') \<Rightarrow> (res, evs @ evs'))
          else (Inl (after_loop (Some (GeometryError m))), evs)
      | (Inl e, evs) \<Rightarrow> (Inl e, evs))"

definition generate_from_text :: "world \<Rightarrow> request \<Rightarrow> (exn + file_response) \<times> trace_event list" where
  "generate_from_text w rq =
     (if \<not> py_truthy (gemini_api_key rq)
      then (Inl (HTTPException 400 ''gemini_api_key is required in request body''), [])
      else case init_raises w of
             Some e \<Rightarrow> (Inl (HTTPException 400
                        (''Invalid API key or pipeline initialization failed: '' @ e)), [])
           | None \<Rightarrow> retry_loop w rq [0, 1, 2] None None)"

text \<open>The scripts handed to the sandbox executor, and the feedback of each generation call.\<close>

fun sandbox_scripts :: "trace_event list \<Rightarrow> string list" where
  "sandbox_scripts [] = []"
| "sandbox_scripts (SandboxCall n script # evs) = script # sandbox_scripts evs"
| "sandbox_scripts (ev # evs) = sandbox_scripts evs"


section \<open>Sample inputs\<close>

text \<open>A sound mesh, and a scratch directory that holds the mesh file but no STEP file.\<close>

definition valid_cube :: mesh where
  "valid_cube = \<lparr>mesh_is_empty = False, mesh_is_watertight = True, mesh_volume = Num 1000, mesh_faces = 12\<rparr>"

definition stl_only_dir :: workdir where
  "stl_only_dir = \<lparr>job_id = ''job'', step_exists = False, stl_exists = True, script_exists = True,
      stl_load = Loaded valid_cube, zip_raises = None, rmtree_fails = False\<rparr>"

text \<open>A request, and three environments: every run sound, every run timing out, the first launch failing.\<close>

definition sample_request :: request where
  "sample_request = \<lparr>prompt = ''a 20 mm cube'', format = ''stl'', previous_code = None,
      gemini_api_key = Some ''key''\<rparr>"

definition sound_world :: world where
  "sound_world = \<lparr>init_raises = None, llm = (\<lambda>n fb. Inr ''x = 1''),
      sandbox = (\<lambda>n script. \<lparr>event = Completed [] [] 0, dir = stl_only_dir\<rparr>)\<rparr>"

definition timeout_world :: world where
  "timeout_world = \<lparr>init_raises = None, llm = (\<lambda>n fb. Inr ''x = 1''),
      sandbox = (\<lambda>n script. \<lparr>event = TimedOut, dir = stl_only_dir\<rparr>)\<rparr>"

definition launch_failure_world :: world where
  "launch_failure_world = \<lparr>init_raises = None, llm = (\<lambda>n fb. Inr ''x = 1''),
      sandbox = (\<lambda>n script.
         if n = 0 then \<lparr>event = LaunchRaised ''docker: not found'', dir = stl_only_dir\<rparr>
         else \<lparr>event = Completed [] [] 0, dir = stl_only_dir\<rparr>)\<rparr>"

definition stl_response :: "nat option \<Rightarrow> file_response" where
  "stl_response retry = \<lparr>path = StlFile, filename = ''render.stl'',
      media_type = ''application/octet-stream'', retry_count = retry\<rparr>"

text \<open>The script that \<open>_generate_code\<close> builds from the model answer \<open>x = 1\<close>.\<close>

definition sample_script :: string where
  "sample_script = script_header @ py_strip (ensure_function ''x = 1'') @ script_footer"


text \<open>
  An executor call in which the scratch directory is created and writing the script raises,
  and one in which launching the container raises.
\<close>

definition write_failure_reply :: sandbox_reply where
  "write_failure_reply = \<lparr>event = WriteRaised ''No space left on device'', dir = stl_only_dir\<rparr>"

definition launch_failure_reply :: sandbox_reply where
  "launch_failure_reply = \<lparr>event = LaunchRaised ''docker: not found'', dir = stl_only_dir\<rparr>"

text \<open>
  A world whose model answers every generation call with a script that imports
  \<open>subprocess\<close>.
\<close>

definition unsafe_world :: world where
  "unsafe_world = \<lparr>init_raises = None, llm = (\<lambda>n fb. Inr ''import subprocess''),
      sandbox = (\<lambda>n script. \<lparr>event = Completed [] [] 0, dir = stl_only_dir\<rparr>)\<rparr>"

text \<open>
  A \<open>/render\<close> environment in which launching the container raises.
\<close>

definition render_launch_failure :: "string \<Rightarrow> sandbox_reply" where
  "render_launch_failure = (\<lambda>script. launch_failure_reply)"



text \<open>
  The sound world with a sandbox that behaves differently on scripts that contain
  \<open>subprocess\<close>.
\<close>

definition picky_world :: world where
  "picky_world =
     sound_world\<lparr>sandbox := (\<lambda>n script. if py_in ''subprocess'' script
                                           then \<lparr>event = TimedOut, dir = stl_only_dir\<rparr>
                                           else sandbox sound_world n script)\<rparr>"

section \<open>Properties of the text operations\<close>

lemma py_split_from_nonempty: "py_split_from sep k s \<noteq> []"
  by (induction sep k s rule: py_split_from.induct) (auto split: list.splits)

lemma py_split_nonempty: "py_split sep s \<noteq> []"
  by (simp add: py_split_def py_split_from_nonempty)

lemma select_fold:
  "foldl (\<lambda>e l. if P l then l else e) e0 ls =
     (if filter P ls = [] then e0 else last (filter P ls))"
  by (induction ls arbitrary: e0 rule: rev_induct) simp_all

lemma select_error_line_spec: "select_error_line stderr = spec_selected_line stderr"
  unfolding select_error_line_def spec_selected_line_def Let_def
  by (rule select_fold)

lemma parse_first_match:
  "parse_freecad_error stderr =
     first_match rule_table (py_lower (select_error_line stderr)) (hint_generic stderr)"
  by (simp add: parse_freecad_error_def rule_table_def Let_def)

lemma hints_distinct:
  "(p, h) \<in> set rule_table \<Longrightarrow> (p', h') \<in> set rule_table \<Longrightarrow> h s = h' s' \<Longrightarrow> (p, h) = (p', h')"
  unfolding rule_table_def hint_draft_def hint_null_def hint_fuse_def hint_fillet_def
    hint_watertight_def hint_empty_def hint_makefillet_def
  by (simp; elim disjE; simp)

lemma hints_not_generic:
  "(p, h) \<in> set rule_table \<Longrightarrow> h s \<noteq> hint_generic e"
  unfolding rule_table_def hint_draft_def hint_null_def hint_fuse_def hint_fillet_def
    hint_watertight_def hint_empty_def hint_makefillet_def hint_generic_def
  by (simp; elim disjE; simp)

lemma first_match_cases:
  "first_match rules s d = d \<and> (\<forall>(p, h) \<in> set rules. \<not> p s)
   \<or> (\<exists>(p, h) \<in> set rules. p s \<and> first_match rules s d = h s)"
  by (induction rules s d rule: first_match.induct) auto

lemma first_match_no_rule:
  "(\<forall>(p, h) \<in> set rules. \<not> p s) \<Longrightarrow> first_match rules s d = d"
  by (induction rules s d rule: first_match.induct) auto

lemma first_match_at:
  "i < length rules \<Longrightarrow> fst (rules ! i) s \<Longrightarrow> (\<forall>j < i. \<not> fst (rules ! j) s)
     \<Longrightarrow> first_match rules s d = snd (rules ! i) s"
proof (induction rules s d arbitrary: i rule: first_match.induct)
  case (1 s dflt)
  then show ?case by simp
next
  case (2 p h rules s dflt)
  show ?case
  proof (cases i)
    case 0
    with 2 show ?thesis by simp
  next
    case (Suc k)
    from 2(4) Suc have np: "\<not> p s" by force
    from 2(4) Suc have "\<forall>j < k. \<not> fst (rules ! j) s" by force
    with 2(1) [OF np, of k] 2(2,3) Suc np show ?thesis by simp
  qed
qed

section \<open>Error classifier: rule order\<close>

text \<open>
  Claim C5, as the code has it.  The classifier is a function of the diagnostic text alone.
  Its rules are tried in the fixed order of \<open>rule_table\<close> on the lower-cased \<^emph>\<open>selected line\<close> of
  the text (not on the whole text), the first rule whose pattern holds there gives the hint,
  and when no rule matches the hint is \<open>ERROR: \<close> followed by the first 300 characters of
  the original text.
\<close>

theorem classifier_first_match_on_selected_line:
  "parse_freecad_error stderr =
     first_match rule_table (py_lower (select_error_line stderr)) (''ERROR: '' @ take 300 stderr)
   \<and> ((\<forall>(p, h) \<in> set rule_table. \<not> p (py_lower (select_error_line stderr)))
        \<longrightarrow> parse_freecad_error stderr = ''ERROR: '' @ take 300 stderr)"
  using first_match_no_rule [of rule_table "py_lower (select_error_line stderr)" "hint_generic stderr"]
  by (simp add: parse_first_match hint_generic_def)

theorem classifier_first_match_on_selected_line_witness:
  "parse_freecad_error ''null shape\<newline>foo'' =
     first_match rule_table (py_lower (select_error_line ''null shape\<newline>foo''))
       (''ERROR: '' @ take 300 ''null shape\<newline>foo'')
   \<and> \<not> (\<exists>(p, h) \<in> set rule_table. p (py_lower (select_error_line ''null shape\<newline>foo'')))
   \<and> parse_freecad_error ''null shape\<newline>foo'' = ''ERROR: '' @ take 300 ''null shape\<newline>foo''"
proof -
  have sel: "py_lower (select_error_line ''null shape\<newline>foo'') = ''foo''"
    by code_simp
  have none: "\<forall>(p, h) \<in> set rule_table. \<not> p (py_lower (select_error_line ''null shape\<newline>foo''))"
    unfolding sel by (simp add: rule_table_def)
  show ?thesis
    using classifier_first_match_on_selected_line [of "''null shape\<newline>foo''"] none
    by blast
qed

text \<open>
  Claim C5 as stated reads the rules on the whole lower-cased text.  On the two-line text
  \<open>null shape\<close>, \<open>not watertight\<close> the earlier rule (null shape) occurs in the text, yet the
  classifier answers with the hint of the later rule, whose pattern is on the last line.
\<close>

theorem classifier_whole_text_counterexample:
  "parse_freecad_error ''null shape\<newline>not watertight'' = hint_watertight
   \<and> spec_classify_whole_text ''null shape\<newline>not watertight'' = hint_null
   \<and> hint_watertight \<noteq> hint_null"
  by code_simp

section \<open>Error classifier: the selected line\<close>

text \<open>
  Claim C10.  The rules are matched against one line of the stripped diagnostic text, lower-cased:
  the last line that contains \<open>ValueError:\<close> when some line does, the last line otherwise.
  The first rule of the table whose pattern is on that line gives the answer.  A rule whose
  pattern is not on that line never gives the answer, whatever the other lines hold, and when
  no pattern is on that line the answer is \<open>ERROR: \<close> followed by the first 300 characters of
  the full original text.
\<close>

theorem classifier_selected_line:
  "select_error_line stderr = spec_selected_line stderr
   \<and> (\<forall>i < length rule_table.
         fst (rule_table ! i) (py_lower (spec_selected_line stderr))
         \<and> (\<forall>j < i. \<not> fst (rule_table ! j) (py_lower (spec_selected_line stderr)))
           \<longrightarrow> parse_freecad_error stderr
                 = snd (rule_table ! i) (py_lower (spec_selected_line stderr)))
   \<and> (\<forall>(p, h) \<in> set rule_table.
         \<not> p (py_lower (spec_selected_line stderr))
           \<longrightarrow> parse_freecad_error stderr \<noteq> h (py_lower (spec_selected_line stderr)))
   \<and> ((\<forall>(p, h) \<in> set rule_table. \<not> p (py_lower (spec_selected_line stderr)))
         \<longrightarrow> parse_freecad_error stderr = ''ERROR: '' @ take 300 stderr)"
proof (intro conjI)
  let ?s = "py_lower (spec_selected_line stderr)"
  have pm: "parse_freecad_error stderr = first_match rule_table ?s (hint_generic stderr)"
    by (simp add: parse_first_match select_error_line_spec)
  show "select_error_line stderr = spec_selected_line stderr"
    by (rule select_error_line_spec)
  show "\<forall>i < length rule_table.
         fst (rule_table ! i) ?s \<and> (\<forall>j < i. \<not> fst (rule_table ! j) ?s)
           \<longrightarrow> parse_freecad_error stderr = snd (rule_table ! i) ?s"
    using first_match_at [of _ rule_table ?s "hint_generic stderr"] pm by simp
  show "\<forall>(p, h) \<in> set rule_table. \<not> p ?s \<longrightarrow> parse_freecad_error stderr \<noteq> h ?s"
  proof (clarify)
    fix p h
    assume mem: "(p, h) \<in> set rule_table" and np: "\<not> p ?s" and eq: "parse_freecad_error stderr = h ?s"
    from first_match_cases [of rule_table ?s "hint_generic stderr"]
    show False
    proof
      assume "first_match rule_table ?s (hint_generic stderr) = hint_generic stderr
                \<and> (\<forall>(p, h) \<in> set rule_table. \<not> p ?s)"
      with pm eq have "h ?s = hint_generic stderr" by simp
      with hints_not_generic [OF mem] show False by blast
    next
      assume "\<exists>(p, h) \<in> set rule_table. p ?s \<and> first_match rule_table ?s (hint_generic stderr) = h ?s"
      then obtain p' h' where mem': "(p', h') \<in> set rule_table" and p': "p' ?s"
        and fm: "first_match rule_table ?s (hint_generic stderr) = h' ?s" by blast
      from pm eq fm have "h ?s = h' ?s" by simp
      from hints_distinct [OF mem mem' this] have "p = p'" by simp
      with np p' show False by simp
    qed
  qed
  show "(\<forall>(p, h) \<in> set rule_table. \<not> p ?s) \<longrightarrow> parse_freecad_error stderr = ''ERROR: '' @ take 300 stderr"
    using first_match_no_rule [of rule_table ?s "hint_generic stderr"] pm
    by (simp add: hint_generic_def)
qed

theorem classifier_selected_line_witness:
  "spec_selected_line ''makeFillet\<newline>ValueError: Null Shape\<newline>not watertight'' = ''ValueError: Null Shape''
   \<and> (1::nat) < length rule_table
   \<and> fst (rule_table ! 1) (py_lower (spec_selected_line ''makeFillet\<newline>ValueError: Null Shape\<newline>not watertight''))
   \<and> \<not> fst (rule_table ! 0) (py_lower (spec_selected_line ''makeFillet\<newline>ValueError: Null Shape\<newline>not watertight''))
   \<and> parse_freecad_error ''makeFillet\<newline>ValueError: Null Shape\<newline>not watertight'' = hint_null
   \<and> spec_selected_line ''makeFillet\<newline>ValueError: x\<newline>null shape\<newline>ValueError: y\<newline>empty'' = ''ValueError: y''
   \<and> \<not> (\<exists>(p, h) \<in> set rule_table.
         p (py_lower (spec_selected_line ''makeFillet\<newline>ValueError: x\<newline>null shape\<newline>ValueError: y\<newline>empty'')))
   \<and> parse_freecad_error ''makeFillet\<newline>ValueError: x\<newline>null shape\<newline>ValueError: y\<newline>empty''
       = ''ERROR: '' @ take 300 ''makeFillet\<newline>ValueError: x\<newline>null shape\<newline>ValueError: y\<newline>empty''"
proof -
  let ?m = "''makeFillet\<newline>ValueError: Null Shape\<newline>not watertight''"
  let ?e = "''makeFillet\<newline>ValueError: x\<newline>null shape\<newline>ValueError: y\<newline>empty''"
  have msel: "spec_selected_line ?m = ''ValueError: Null Shape''"
    by code_simp
  have mlow: "py_lower ''ValueError: Null Shape'' = ''valueerror: null shape''"
    by code_simp
  have len: "(1::nat) < length rule_table" by (simp add: rule_table_def)
  have hit: "fst (rule_table ! 1) (py_lower (spec_selected_line ?m))"
    unfolding msel mlow by (simp add: rule_table_def)
  have miss: "\<not> fst (rule_table ! 0) (py_lower (spec_selected_line ?m))"
    unfolding msel mlow by (simp add: rule_table_def)
  have earlier: "\<forall>j < (1::nat). \<not> fst (rule_table ! j) (py_lower (spec_selected_line ?m))"
    using miss by simp
  have snd1: "snd (rule_table ! 1) (py_lower (spec_selected_line ?m)) = hint_null"
    by (simp add: rule_table_def)
  from classifier_selected_line [of ?m] len hit earlier
  have "parse_freecad_error ?m = snd (rule_table ! 1) (py_lower (spec_selected_line ?m))"
    by blast
  then have fire: "parse_freecad_error ?m = hint_null" by (simp only: snd1)
  have sel: "spec_selected_line ?e = ''ValueError: y''"
    by code_simp
  have low: "py_lower ''ValueError: y'' = ''valueerror: y''"
    by code_simp
  have none: "\<forall>(p, h) \<in> set rule_table. \<not> p (py_lower (spec_selected_line ?e))"
    unfolding sel low by (simp add: rule_table_def)
  from classifier_selected_line [of ?e] none
  have gen: "parse_freecad_error ?e = ''ERROR: '' @ take 300 ?e" by blast
  from msel len hit miss fire sel none gen show ?thesis by blast
qed

section \<open>Mesh validator\<close>

text \<open>
  Claim C6.  \<open>validate_mesh\<close> raises if and only if the file exists, loading gives a mesh, and
  the mesh is empty (\<open>is_empty\<close>, or no face: the specification's non-empty is "contains at
  least one face"), not watertight, or of volume at most zero.  Whatever it raises is a
  \<open>GeometryError\<close>.  Without the file it returns with nothing logged; when loading raises it
  logs one warning and returns.
\<close>

theorem validate_mesh_raises_iff:
  "((\<exists>e. validate_mesh file_exists load = Inl e) \<longleftrightarrow>
      file_exists \<and> (\<exists>m. load = Loaded m \<and>
         (mesh_is_empty m \<or> mesh_faces m = 0 \<or> \<not> mesh_is_watertight m \<or> py_le_zero (mesh_volume m))))
   \<and> (\<forall>e. validate_mesh file_exists load = Inl e \<longrightarrow> (\<exists>msg. e = GeometryError msg))
   \<and> (\<not> file_exists \<longrightarrow> validate_mesh file_exists load = Inr [])
   \<and> (file_exists \<and> load = LoadRaises err \<longrightarrow>
        validate_mesh file_exists load = Inr [''Mesh validation warning: '' @ err])"
  by (cases load) (auto simp: validate_mesh_def)

theorem validate_mesh_raises_iff_witness:
  "validate_mesh True (Loaded \<lparr>mesh_is_empty = False, mesh_is_watertight = True,
       mesh_volume = Num 0, mesh_faces = 12\<rparr>)
     = Inl (GeometryError ''Generated mesh has zero or negative volume.'')
   \<and> validate_mesh False (Loaded \<lparr>mesh_is_empty = False, mesh_is_watertight = True,
       mesh_volume = Num 0, mesh_faces = 12\<rparr>) = Inr []
   \<and> validate_mesh True (LoadRaises ''bad file'') = Inr [''Mesh validation warning: bad file'']"
proof -
  let ?m = "\<lparr>mesh_is_empty = False, mesh_is_watertight = True, mesh_volume = Num 0, mesh_faces = 12\<rparr>"
  have a: "validate_mesh True (Loaded ?m) = Inl (GeometryError ''Generated mesh has zero or negative volume.'')"
    using validate_mesh_raises_iff [of True "Loaded ?m"] by (simp add: validate_mesh_def)
  have b: "validate_mesh False (Loaded ?m) = Inr []"
    using validate_mesh_raises_iff [of False "Loaded ?m"] by simp
  have c: "validate_mesh True (LoadRaises ''bad file'') = Inr [''Mesh validation warning: bad file'']"
    using validate_mesh_raises_iff [of True "LoadRaises ''bad file''" "''bad file''"] by simp
  from a b c show ?thesis by simp
qed

section \<open>Execution and packaging\<close>

lemma validate_mesh_only_geometry:
  "validate_mesh file_exists load = Inl e \<Longrightarrow> \<exists>msg. e = GeometryError msg"
  by (cases load) (auto simp: validate_mesh_def split: if_splits)

lemma rmtree_ignore_errors_none: "fst (rmtree_ignore_errors d S) = None"
  by (simp add: rmtree_ignore_errors_def split: prod.splits)

lemma run_freecad_generation_cases:
  "run_freecad_generation retry fmt r =
     (case run_docker_execution (event r) of
        Inl e \<Rightarrow> (Inl e, [])
      | Inr reply \<Rightarrow>
          (case try_body retry fmt reply (dir r) of
             Inr response \<Rightarrow> (Inr response, [CleanupScheduled])
           | Inl e \<Rightarrow> (Inl (reraise e), [CleanupNow])))"
  by (simp add: run_freecad_generation_def run_freecad_generation_fs_def Let_def
      rmtree_ignore_errors_def split: sum.splits prod.splits option.splits)

text \<open>
  Claim C2 as stated fails: the format is \<open>step\<close>, the sandbox exits with 0, the scratch
  directory holds no STEP file but a sound mesh file, and the mesh file is delivered under
  the name \<open>render.step\<close>.
\<close>

theorem step_request_substituted_counterexample:
  "fst (run_freecad_generation None ''step'' \<lparr>event = Completed [] [] 0, dir = stl_only_dir\<rparr>)
     = Inr \<lparr>path = StlFile, filename = ''render.step'',
            media_type = ''application/octet-stream'', retry_count = None\<rparr>"
  by (simp add: run_freecad_generation_cases try_body_def validate_mesh_def package_output_def
      stl_only_dir_def valid_cube_def)

text \<open>
  Claim C2, as the code has it.  For the format \<open>step\<close>, exit code 0 and no STEP file: when
  the mesh file is missing too the request fails with status 500, "Output file missing from
  container"; when the mesh file exists the request fails only if the validator raises, and
  otherwise the mesh file is delivered, named \<open>render.step\<close>.
\<close>

theorem step_request_missing_step:
  assumes "run_docker_execution (event r) = Inr (out, err, 0)"
    and "\<not> step_exists (dir r)"
  shows "(\<not> stl_exists (dir r) \<longrightarrow>
            fst (run_freecad_generation retry ''step'' r)
              = Inl (HTTPException 500 ''Output file missing from container''))
       \<and> (stl_exists (dir r) \<longrightarrow>
            (case validate_mesh True (stl_load (dir r)) of
               Inl e \<Rightarrow> fst (run_freecad_generation retry ''step'' r) = Inl e
             | Inr warnings \<Rightarrow>
                 fst (run_freecad_generation retry ''step'' r)
                   = Inr \<lparr>path = StlFile, filename = ''render.step'',
                          media_type = ''application/octet-stream'', retry_count = retry\<rparr>))"
proof (intro conjI impI)
  assume "\<not> stl_exists (dir r)"
  with assms show "fst (run_freecad_generation retry ''step'' r)
      = Inl (HTTPException 500 ''Output file missing from container'')"
    by (simp add: run_freecad_generation_cases try_body_def package_output_def)
next
  assume stl: "stl_exists (dir r)"
  show "case validate_mesh True (stl_load (dir r)) of
          Inl e \<Rightarrow> fst (run_freecad_generation retry ''step'' r) = Inl e
        | Inr warnings \<Rightarrow>
            fst (run_freecad_generation retry ''step'' r)
              = Inr \<lparr>path = StlFile, filename = ''render.step'',
                     media_type = ''application/octet-stream'', retry_count = retry\<rparr>"
  proof (cases "validate_mesh True (stl_load (dir r))")
    case (Inl e)
    then obtain msg where "e = GeometryError msg"
      using validate_mesh_only_geometry by blast
    with Inl assms stl show ?thesis
      by (simp add: run_freecad_generation_cases try_body_def)
  next
    case (Inr ws)
    with assms stl show ?thesis
      by (simp add: run_freecad_generation_cases try_body_def package_output_def)
  qed
qed

theorem step_request_missing_step_witness:
  "run_docker_execution (event \<lparr>event = Completed [] [] 0, dir = stl_only_dir\<rparr>) = Inr ([], [], 0)
   \<and> \<not> step_exists (dir \<lparr>event = Completed [] [] 0, dir = stl_only_dir\<rparr>)
   \<and> stl_exists (dir \<lparr>event = Completed [] [] 0, dir = stl_only_dir\<rparr>)
   \<and> validate_mesh True (stl_load stl_only_dir) = Inr []
   \<and> fst (run_freecad_generation (Some 1) ''step'' \<lparr>event = Completed [] [] 0, dir = stl_only_dir\<rparr>)
       = Inr \<lparr>path = StlFile, filename = ''render.step'',
              media_type = ''application/octet-stream'', retry_count = Some 1\<rparr>"
proof -
  let ?r = "\<lparr>event = Completed [] [] 0, dir = stl_only_dir\<rparr>"
  have h1: "run_docker_execution (event ?r) = Inr ([], [], 0)" by simp
  have h2: "\<not> step_exists (dir ?r)" by (simp add: stl_only_dir_def)
  have h3: "stl_exists (dir ?r)" by (simp add: stl_only_dir_def)
  have h4: "validate_mesh True (stl_load stl_only_dir) = Inr []"
    by (simp add: validate_mesh_def stl_only_dir_def valid_cube_def)
  from step_request_missing_step [OF h1 h2, of "Some 1"] h3 h4
  have "fst (run_freecad_generation (Some 1) ''step'' ?r)
       = Inr \<lparr>path = StlFile, filename = ''render.step'',
              media_type = ''application/octet-stream'', retry_count = Some 1\<rparr>"
    by simp
  with h1 h2 h3 h4 show ?thesis by blast
qed

section \<open>Removal of the scratch directory\<close>

lemma zip_members_rmtree: "zip_members (d\<lparr>rmtree_fails := b\<rparr>) = zip_members d"
  by (simp add: zip_members_def)

lemma package_output_rmtree:
  "package_output retry fmt (d\<lparr>rmtree_fails := b\<rparr>) = package_output retry fmt d"
  by (cases "zip_raises d") (simp_all add: package_output_def zip_members_rmtree)

lemma try_body_rmtree:
  "try_body retry fmt reply (d\<lparr>rmtree_fails := b\<rparr>) = try_body retry fmt reply d"
  by (auto simp: try_body_def package_output_rmtree split: prod.splits sum.splits)

text \<open>
  Once the executor has returned, every exit removes the scratch directory or arranges its
  removal: when the removal does not fail, the directory is gone after the background tasks
  of the request have run.  Whether the removal fails changes neither the response nor the
  exception.
\<close>

lemma executor_returned_mkdir: "run_docker_execution ev = Inr reply \<Longrightarrow> mkdir_done ev"
  by (cases ev) simp_all

lemma cleanup_after_executor_returns:
  assumes "run_docker_execution (event r) = Inr reply" and "\<not> rmtree_fails (dir r)"
  shows "job_id (dir r)
      \<notin> run_background (outcome_tasks (run_freecad_generation_fs retry fmt r S))
            (outcome_scratch (run_freecad_generation_fs retry fmt r S))"
  using assms executor_returned_mkdir [OF assms(1)]
  by (simp add: run_freecad_generation_fs_def Let_def executor_scratch_def
      rmtree_ignore_errors_def cleanup_workdir_def rmtree_def split: sum.splits)

lemma removal_failure_keeps_outcome:
  "outcome_result (run_freecad_generation_fs retry fmt (r\<lparr>dir := (dir r)\<lparr>rmtree_fails := b\<rparr>\<rparr>) S)
     = outcome_result (run_freecad_generation_fs retry fmt r S)"
  by (simp add: run_freecad_generation_fs_def Let_def try_body_rmtree
      rmtree_ignore_errors_def split: sum.splits prod.splits)

text \<open>
  Claim C9 fails on the code.  The executor is called before the \<open>try\<close> block of
  \<open>_run_freecad_generation\<close>, and it creates the scratch directory and writes the script
  before its own \<open>try\<close> block.  When writing the script raises, the exception leaves both
  functions: no removal is performed, no removal task is scheduled, and the directory is still
  there after the background tasks of the request have run.  When launching the container
  raises instead, the \<open>except\<close> block removes the directory at once.
\<close>

theorem setup_failure_leaves_scratch_directory:
  "run_freecad_generation_fs None ''stl'' write_failure_reply {}
     = \<lparr>outcome_result = Inl (OtherError ''No space left on device''), outcome_events = [],
        outcome_scratch = {''job''}, outcome_tasks = []\<rparr>
   \<and> run_background (outcome_tasks (run_freecad_generation_fs None ''stl'' write_failure_reply {}))
        (outcome_scratch (run_freecad_generation_fs None ''stl'' write_failure_reply {})) = {''job''}
   \<and> run_freecad_generation_fs None ''stl'' launch_failure_reply {}
     = \<lparr>outcome_result = Inl (GeometryError ''FreeCAD Error: docker: not found''),
        outcome_events = [CleanupNow], outcome_scratch = {}, outcome_tasks = []\<rparr>"
  by (simp add: run_freecad_generation_fs_def Let_def executor_scratch_def
      write_failure_reply_def launch_failure_reply_def stl_only_dir_def try_body_def
      rmtree_ignore_errors_def rmtree_def)

section \<open>Retry controller\<close>

lemma sandbox_scripts_append:
  "sandbox_scripts (xs @ ys) = sandbox_scripts xs @ sandbox_scripts ys"
  by (induction xs rule: sandbox_scripts.induct) simp_all


lemma run_freecad_generation_effects:
  "snd (run_freecad_generation retry fmt r) = [CleanupScheduled]
   \<or> snd (run_freecad_generation retry fmt r) = [CleanupNow]
   \<or> snd (run_freecad_generation retry fmt r) = []"
  by (simp add: run_freecad_generation_cases split: sum.splits)

lemma attempt_body_events:
  "snd (attempt_body w rq n fb) =
     (case pipeline_run w n (choose_feedback rq n fb) of
        Inl e \<Rightarrow> [GenCall n (choose_feedback rq n fb)]
      | Inr code \<Rightarrow>
          [GenCall n (choose_feedback rq n fb), SandboxCall n code]
          @ snd (run_freecad_generation (if 0 < n then Some n else None) (format rq)
                   (sandbox w n code)))"
  by (simp add: attempt_body_def Let_def split: sum.splits prod.splits)

lemma attempt_body_result:
  "fst (attempt_body w rq n fb) =
     (case pipeline_run w n (choose_feedback rq n fb) of
        Inl e \<Rightarrow> Inl e
      | Inr code \<Rightarrow>
          fst (run_freecad_generation (if 0 < n then Some n else None) (format rq)
                   (sandbox w n code)))"
  by (simp add: attempt_body_def Let_def split: sum.splits prod.splits)

lemma effects_no_sandbox:
  "sandbox_scripts (snd (run_freecad_generation retry fmt r)) = []"
  using run_freecad_generation_effects [of retry fmt r] by auto


lemma attempt_sandbox_scripts:
  "sandbox_scripts (snd (attempt_body w rq n fb)) =
     (case pipeline_run w n (choose_feedback rq n fb) of Inl e \<Rightarrow> [] | Inr code \<Rightarrow> [code])"
  by (simp add: attempt_body_events sandbox_scripts_append effects_no_sandbox split: sum.splits)


lemma retry_loop_step:
  "retry_loop w rq (n # rest) fb le =
     (case fst (attempt_body w rq n fb) of
        Inr response \<Rightarrow> (Inr response, snd (attempt_body w rq n fb))
      | Inl (GeometryError m) \<Rightarrow>
          if n < 2 then
            (fst (retry_loop w rq rest (Some (parse_freecad_error m)) (Some (GeometryError m))),
             snd (attempt_body w rq n fb)
               @ snd (retry_loop w rq rest (Some (parse_freecad_error m)) (Some (GeometryError m))))
          else (Inl (after_loop (Some (GeometryError m))), snd (attempt_body w rq n fb))
      | Inl e \<Rightarrow> (Inl e, snd (attempt_body w rq n fb)))"
  by (cases "attempt_body w rq n fb") (simp split: sum.splits exn.splits prod.splits)

declare retry_loop.simps(2) [simp del]

lemma retry_loop_sandbox_count:
  "length (sandbox_scripts (snd (retry_loop w rq ns fb le))) \<le> length ns"
proof (induction ns arbitrary: fb le)
  case Nil
  show ?case by simp
next
  case (Cons n rest)
  have one: "length (sandbox_scripts (snd (attempt_body w rq n fb))) \<le> 1"
    by (simp add: attempt_sandbox_scripts split: sum.splits)
  show ?case
  proof (cases "fst (attempt_body w rq n fb)")
    case (Inr response)
    with one show ?thesis by (simp add: retry_loop_step)
  next
    case (Inl e)
    show ?thesis
    proof (cases e)
      case (GeometryError m)
      from Cons.IH [of "Some (parse_freecad_error m)" "Some (GeometryError m)"] one Inl GeometryError
      show ?thesis by (simp add: retry_loop_step sandbox_scripts_append)
    qed (use Inl one in \<open>simp_all add: retry_loop_step\<close>)
  qed
qed

text \<open>
  Claim C4.  A job hands at most three scripts to the sandbox executor, and exactly one when the
  first attempt returns a response (exit code 0, the validator does not raise, the artifact to
  deliver exists); that response is then the job's.
\<close>

theorem sandbox_invocations_bounded:
  "length (sandbox_scripts (snd (generate_from_text w rq))) \<le> 3
   \<and> (py_truthy (gemini_api_key rq) \<and> init_raises w = None
        \<and> fst (attempt_body w rq 0 None) = Inr response
      \<longrightarrow> length (sandbox_scripts (snd (generate_from_text w rq))) = 1
          \<and> fst (generate_from_text w rq) = Inr response)"
proof (intro conjI impI)
  show "length (sandbox_scripts (snd (generate_from_text w rq))) \<le> 3"
    using retry_loop_sandbox_count [of w rq "[0, 1, 2]" None None]
    by (simp add: generate_from_text_def split: option.splits)
next
  assume a: "py_truthy (gemini_api_key rq) \<and> init_raises w = None
        \<and> fst (attempt_body w rq 0 None) = Inr response"
  then obtain code where code: "pipeline_run w 0 (choose_feedback rq 0 None) = Inr code"
    by (auto simp: attempt_body_result split: sum.splits)
  from a have g: "generate_from_text w rq = (Inr response, snd (attempt_body w rq 0 None))"
    by (simp add: generate_from_text_def retry_loop_step)
  from g code show "length (sandbox_scripts (snd (generate_from_text w rq))) = 1"
    by (simp add: attempt_sandbox_scripts)
  from g show "fst (generate_from_text w rq) = Inr response" by simp
qed

theorem sandbox_invocations_bounded_witness:
  "py_truthy (gemini_api_key sample_request) \<and> init_raises sound_world = None
   \<and> fst (attempt_body sound_world sample_request 0 None) = Inr (stl_response None)
   \<and> length (sandbox_scripts (snd (generate_from_text sound_world sample_request))) = 1
   \<and> fst (generate_from_text sound_world sample_request) = Inr (stl_response None)"
proof -
  have h: "py_truthy (gemini_api_key sample_request) \<and> init_raises sound_world = None
      \<and> fst (attempt_body sound_world sample_request 0 None) = Inr (stl_response None)"
    by code_simp
  with sandbox_invocations_bounded [of sound_world sample_request "stl_response None"]
  show ?thesis by blast
qed

section \<open>Non-zero exit codes in the retry loop\<close>

lemma nonzero_exit_attempt:
  assumes "pipeline_run w n (choose_feedback rq n fb) = Inr code"
    and "run_docker_execution (event (sandbox w n code)) = Inr (out, err, c)"
    and "c \<noteq> 0"
  shows "attempt_body w rq n fb =
           (Inl (GeometryError (''FreeCAD Error: '' @ err)),
            [GenCall n (choose_feedback rq n fb), SandboxCall n code, CleanupNow])"
  using assms
  by (simp add: attempt_body_def Let_def run_freecad_generation_cases try_body_def)

lemma nonzero_exit_loop:
  assumes "pipeline_run w n (choose_feedback rq n fb) = Inr code"
    and "run_docker_execution (event (sandbox w n code)) = Inr (out, err, c)"
    and "c \<noteq> 0"
  shows "retry_loop w rq (n # rest) fb le =
     (if n < 2 then
        (fst (retry_loop w rq rest (Some (parse_freecad_error (''FreeCAD Error: '' @ err)))
                (Some (GeometryError (''FreeCAD Error: '' @ err)))),
         [GenCall n (choose_feedback rq n fb), SandboxCall n code, CleanupNow]
         @ snd (retry_loop w rq rest (Some (parse_freecad_error (''FreeCAD Error: '' @ err)))
                (Some (GeometryError (''FreeCAD Error: '' @ err)))))
      else (Inl (HTTPException 400 (''Generation failed after 3 attempts: FreeCAD Error: '' @ err)),
            [GenCall n (choose_feedback rq n fb), SandboxCall n code, CleanupNow]))"
  using nonzero_exit_attempt [OF assms]
  by (simp add: retry_loop_step after_loop_def)

lemma retry_loop_scripts_prefix:
  "\<exists>more. sandbox_scripts (snd (retry_loop w rq (m # rest) fb le))
            = sandbox_scripts (snd (attempt_body w rq m fb)) @ more"
  by (simp add: retry_loop_step sandbox_scripts_append split: sum.splits exn.splits)

lemma render_launch_error:
  assumes "scad_code \<noteq> []" and "event (sb scad_code) = LaunchRaised e"
  shows "render_from_script sb scad_code fmt
           = (Inl (GeometryError (''FreeCAD Error: '' @ e)), [SandboxCall 0 scad_code, CleanupNow])"
  using assms by (simp add: render_from_script_def run_freecad_generation_cases try_body_def)

text \<open>
  Claim C1 as stated fails: in an environment where every run times out (exit code 124) the
  sandbox executor is called three times before the job fails with status 400.
\<close>

theorem timeout_retried_counterexample:
  "run_docker_execution (event (sandbox timeout_world 0 sample_script))
      = Inr ([], ''TIMEOUT: Execution exceeded 30s limit'', 124)
   \<and> sandbox_scripts (snd (generate_from_text timeout_world sample_request))
       = [sample_script, sample_script, sample_script]
   \<and> fst (generate_from_text timeout_world sample_request)
       = Inl (HTTPException 400
           ''Generation failed after 3 attempts: FreeCAD Error: TIMEOUT: Execution exceeded 30s limit'')"
  by code_simp

text \<open>
  Claim C1, as the code has it.  An exit code of 124 makes the attempt fail with the
  recoverable \<open>GeometryError\<close> "FreeCAD Error: " followed by the error stream.  On the ordinals
  0 and 1 the loop goes on with the remaining ordinals, its feedback the classified hint of
  that error; on the last ordinal the job fails with status 400.
\<close>

theorem timeout_exit_retried_within_budget:
  assumes "pipeline_run w n (choose_feedback rq n fb) = Inr code"
    and "run_docker_execution (event (sandbox w n code)) = Inr (out, err, 124)"
  shows "fst (attempt_body w rq n fb) = Inl (GeometryError (''FreeCAD Error: '' @ err))
     \<and> (n < 2 \<longrightarrow>
          retry_loop w rq (n # rest) fb le =
            (fst (retry_loop w rq rest (Some (parse_freecad_error (''FreeCAD Error: '' @ err)))
                    (Some (GeometryError (''FreeCAD Error: '' @ err)))),
             [GenCall n (choose_feedback rq n fb), SandboxCall n code, CleanupNow]
             @ snd (retry_loop w rq rest (Some (parse_freecad_error (''FreeCAD Error: '' @ err)))
                    (Some (GeometryError (''FreeCAD Error: '' @ err))))))
     \<and> (\<not> n < 2 \<longrightarrow>
          retry_loop w rq (n # rest) fb le =
            (Inl (HTTPException 400 (''Generation failed after 3 attempts: FreeCAD Error: '' @ err)),
             [GenCall n (choose_feedback rq n fb), SandboxCall n code, CleanupNow]))"
  using nonzero_exit_attempt [OF assms] nonzero_exit_loop [OF assms, of rest le]
  by simp

theorem timeout_exit_retried_within_budget_witness:
  "pipeline_run timeout_world 0 (choose_feedback sample_request 0 None) = Inr sample_script
   \<and> run_docker_execution (event (sandbox timeout_world 0 sample_script))
       = Inr ([], ''TIMEOUT: Execution exceeded 30s limit'', 124)
   \<and> fst (attempt_body timeout_world sample_request 0 None)
       = Inl (GeometryError (''FreeCAD Error: '' @ ''TIMEOUT: Execution exceeded 30s limit''))"
proof -
  have h1: "pipeline_run timeout_world 0 (choose_feedback sample_request 0 None) = Inr sample_script"
    by code_simp
  have h2: "run_docker_execution (event (sandbox timeout_world 0 sample_script))
       = Inr ([], ''TIMEOUT: Execution exceeded 30s limit'', 124)"
    by (simp add: timeout_world_def)
  from timeout_exit_retried_within_budget [OF h1 h2] h1 h2 show ?thesis by blast
qed

text \<open>
  Claim C3 as stated fails: the first launch raises, the sandbox executor is called a second
  time, and the job delivers the artifact of the second attempt.
\<close>

theorem launch_error_retried_counterexample:
  "event (sandbox launch_failure_world 0 sample_script) = LaunchRaised ''docker: not found''
   \<and> sandbox_scripts (snd (generate_from_text launch_failure_world sample_request))
       = [sample_script, sample_script]
   \<and> fst (generate_from_text launch_failure_world sample_request) = Inr (stl_response (Some 1))"
  by code_simp

text \<open>
  Claim C3, as the code has it.  When launching the container raises, the executor returns
  exit code 1 with the exception text as error stream, and the step that called it fails with
  the \<open>GeometryError\<close> "FreeCAD Error: " followed by that text.  In a \<open>/generate\<close> job, on the
  ordinals 0 and 1 the loop goes on with the remaining ordinals, its feedback the classified
  hint of that error, and the sandbox executor is called again when the code generation of the
  next attempt returns a script; on the last ordinal the job fails with status 400.  A
  \<open>/render\<close> request ends with that error after its one call of the executor.
\<close>

theorem launch_error_retried_within_budget:
  "(pipeline_run w n (choose_feedback rq n fb) = Inr code
      \<and> event (sandbox w n code) = LaunchRaised e
    \<longrightarrow> run_docker_execution (event (sandbox w n code)) = Inr ([], e, 1)
        \<and> fst (attempt_body w rq n fb) = Inl (GeometryError (''FreeCAD Error: '' @ e))
        \<and> (n < 2 \<longrightarrow>
             retry_loop w rq (n # rest) fb le =
               (fst (retry_loop w rq rest (Some (parse_freecad_error (''FreeCAD Error: '' @ e)))
                       (Some (GeometryError (''FreeCAD Error: '' @ e)))),
                [GenCall n (choose_feedback rq n fb), SandboxCall n code, CleanupNow]
                @ snd (retry_loop w rq rest (Some (parse_freecad_error (''FreeCAD Error: '' @ e)))
                       (Some (GeometryError (''FreeCAD Error: '' @ e))))))
        \<and> (n < 2 \<and> pipeline_run w m
                       (choose_feedback rq m (Some (parse_freecad_error (''FreeCAD Error: '' @ e))))
                     = Inr code' \<longrightarrow>
             (\<exists>more. sandbox_scripts (snd (retry_loop w rq (n # m # rest) fb le))
                        = code # code' # more))
        \<and> (\<not> n < 2 \<longrightarrow>
             retry_loop w rq (n # rest) fb le =
               (Inl (HTTPException 400 (''Generation failed after 3 attempts: FreeCAD Error: '' @ e)),
                [GenCall n (choose_feedback rq n fb), SandboxCall n code, CleanupNow])))
   \<and> (scad_code \<noteq> [] \<and> event (sb scad_code) = LaunchRaised e'
    \<longrightarrow> render_from_script sb scad_code fmt
          = (Inl (GeometryError (''FreeCAD Error: '' @ e')), [SandboxCall 0 scad_code, CleanupNow]))"
proof (intro conjI impI)
  assume a: "pipeline_run w n (choose_feedback rq n fb) = Inr code
      \<and> event (sandbox w n code) = LaunchRaised e"
  then have gen: "pipeline_run w n (choose_feedback rq n fb) = Inr code" by simp
  from a show run: "run_docker_execution (event (sandbox w n code)) = Inr ([], e, 1)"
    by simp
  have one: "(1::int) \<noteq> 0" by simp
  show "fst (attempt_body w rq n fb) = Inl (GeometryError (''FreeCAD Error: '' @ e))"
    using nonzero_exit_attempt [OF gen run one] by simp
  {
    assume "n < 2"
    then show "retry_loop w rq (n # rest) fb le =
               (fst (retry_loop w rq rest (Some (parse_freecad_error (''FreeCAD Error: '' @ e)))
                       (Some (GeometryError (''FreeCAD Error: '' @ e)))),
                [GenCall n (choose_feedback rq n fb), SandboxCall n code, CleanupNow]
                @ snd (retry_loop w rq rest (Some (parse_freecad_error (''FreeCAD Error: '' @ e)))
                       (Some (GeometryError (''FreeCAD Error: '' @ e)))))"
      using nonzero_exit_loop [OF gen run one, of rest le] by simp
  }
  {
    assume b: "n < 2 \<and> pipeline_run w m
                       (choose_feedback rq m (Some (parse_freecad_error (''FreeCAD Error: '' @ e))))
                     = Inr code'"
    let ?h = "Some (parse_freecad_error (''FreeCAD Error: '' @ e))"
    let ?g = "Some (GeometryError (''FreeCAD Error: '' @ e))"
    from retry_loop_scripts_prefix [of w rq m rest ?h ?g] obtain more
      where "sandbox_scripts (snd (retry_loop w rq (m # rest) ?h ?g))
            = sandbox_scripts (snd (attempt_body w rq m ?h)) @ more" by blast
    with b have next_scripts: "sandbox_scripts (snd (retry_loop w rq (m # rest) ?h ?g)) = code' # more"
      by (simp add: attempt_sandbox_scripts)
    from b nonzero_exit_loop [OF gen run one, of "m # rest" le]
    have "sandbox_scripts (snd (retry_loop w rq (n # m # rest) fb le))
        = code # sandbox_scripts (snd (retry_loop w rq (m # rest) ?h ?g))"
      by (simp add: sandbox_scripts_append)
    with next_scripts
    show "\<exists>more. sandbox_scripts (snd (retry_loop w rq (n # m # rest) fb le)) = code # code' # more"
      by simp
  }
  {
    assume "\<not> n < 2"
    then show "retry_loop w rq (n # rest) fb le =
               (Inl (HTTPException 400 (''Generation failed after 3 attempts: FreeCAD Error: '' @ e)),
                [GenCall n (choose_feedback rq n fb), SandboxCall n code, CleanupNow])"
      using nonzero_exit_loop [OF gen run one, of rest le] by simp
  }
next
  assume "scad_code \<noteq> [] \<and> event (sb scad_code) = LaunchRaised e'"
  then show "render_from_script sb scad_code fmt
          = (Inl (GeometryError (''FreeCAD Error: '' @ e')), [SandboxCall 0 scad_code, CleanupNow])"
    using render_launch_error by blast
qed

theorem launch_error_retried_within_budget_witness:
  "pipeline_run launch_failure_world 0 (choose_feedback sample_request 0 None) = Inr sample_script
   \<and> event (sandbox launch_failure_world 0 sample_script) = LaunchRaised ''docker: not found''
   \<and> fst (attempt_body launch_failure_world sample_request 0 None)
       = Inl (GeometryError (''FreeCAD Error: '' @ ''docker: not found''))
   \<and> (0::nat) < 2
   \<and> pipeline_run launch_failure_world 1
        (choose_feedback sample_request 1
           (Some (parse_freecad_error (''FreeCAD Error: '' @ ''docker: not found''))))
       = Inr sample_script
   \<and> (\<exists>more. sandbox_scripts (snd (retry_loop launch_failure_world sample_request [0, 1, 2] None None))
         = sample_script # sample_script # more)
   \<and> ''x = 1'' \<noteq> []
   \<and> event (render_launch_failure ''x = 1'') = LaunchRaised ''docker: not found''
   \<and> render_from_script render_launch_failure ''x = 1'' ''stl''
       = (Inl (GeometryError (''FreeCAD Error: '' @ ''docker: not found'')),
          [SandboxCall 0 ''x = 1'', CleanupNow])"
proof -
  have h1: "pipeline_run launch_failure_world 0 (choose_feedback sample_request 0 None)
      = Inr sample_script"
    by code_simp
  have h2: "event (sandbox launch_failure_world 0 sample_script) = LaunchRaised ''docker: not found''"
    by (simp add: launch_failure_world_def)
  have h3: "(0::nat) < 2" by simp
  have h4: "pipeline_run launch_failure_world 1
        (choose_feedback sample_request 1
           (Some (parse_freecad_error (''FreeCAD Error: '' @ ''docker: not found''))))
       = Inr sample_script"
    by code_simp
  have h5: "''x = 1'' \<noteq> []" by simp
  have h6: "event (render_launch_failure ''x = 1'') = LaunchRaised ''docker: not found''"
    by (simp add: render_launch_failure_def launch_failure_reply_def)
  note T = launch_error_retried_within_budget
    [of launch_failure_world 0 sample_request None sample_script "''docker: not found''"
        "[2]" None 1 sample_script "''x = 1''" render_launch_failure "''docker: not found''"
        "''stl''"]
  from T h1 h2
  have c1: "fst (attempt_body launch_failure_world sample_request 0 None)
       = Inl (GeometryError (''FreeCAD Error: '' @ ''docker: not found''))" by blast
  from T h1 h2 h3 h4
  have c2: "\<exists>more. sandbox_scripts (snd (retry_loop launch_failure_world sample_request [0, 1, 2] None None))
         = sample_script # sample_script # more" by blast
  from T h5 h6
  have c3: "render_from_script render_launch_failure ''x = 1'' ''stl''
       = (Inl (GeometryError (''FreeCAD Error: '' @ ''docker: not found'')),
          [SandboxCall 0 ''x = 1'', CleanupNow])" by blast
  from h1 h2 c1 h3 h4 c2 h5 h6 c3 show ?thesis by blast
qed

section \<open>Feedback passed to code generation\<close>













section \<open>Substring lemmas\<close>

lemma py_in_nil: "py_in [] s"
  by (cases s) simp_all

lemma py_in_append_left: "py_in p s \<Longrightarrow> py_in p (u @ s)"
  by (induction u) simp_all

lemma py_in_append_right: "py_in p s \<Longrightarrow> py_in p (s @ v)"
proof (induction s)
  case Nil
  then show ?case by (simp add: py_in_nil)
next
  case (Cons c cs)
  from Cons.prems have "prefix p (c # cs) \<or> py_in p cs" by simp
  then show ?case
  proof
    assume "prefix p (c # cs)"
    then have "prefix p ((c # cs) @ v)" by (rule prefix_prefix)
    then show ?thesis by simp
  next
    assume "py_in p cs"
    with Cons.IH show ?thesis by simp
  qed
qed

lemma prefix_before_char:
  "c \<notin> set p \<Longrightarrow> prefix p (u @ c # v) \<Longrightarrow> prefix p u"
  by (auto simp: prefix_append prefix_Cons)

lemma py_in_across_char:
  "c \<notin> set p \<Longrightarrow> py_in p (a @ c # b) \<Longrightarrow> py_in p a \<or> py_in p b"
proof (induction a)
  case Nil
  then show ?case by (cases p) (auto simp: py_in_nil)
next
  case (Cons x a)
  from Cons.prems(2) have "prefix p (x # a @ c # b) \<or> py_in p (a @ c # b)" by simp
  then show ?case
  proof
    assume "prefix p (x # a @ c # b)"
    then have "prefix p ((x # a) @ c # b)" by simp
    from prefix_before_char [OF Cons.prems(1) this] show ?thesis by simp
  next
    assume "py_in p (a @ c # b)"
    with Cons.IH Cons.prems(1) show ?thesis by auto
  qed
qed

lemma py_strip_decompose:
  "s = takeWhile py_isspace s @ py_strip s
        @ rev (takeWhile py_isspace (rev (dropWhile py_isspace s)))"
proof -
  let ?d = "dropWhile py_isspace s"
  have "rev ?d = takeWhile py_isspace (rev ?d) @ dropWhile py_isspace (rev ?d)" by simp
  then have "rev (rev ?d) = rev (takeWhile py_isspace (rev ?d) @ dropWhile py_isspace (rev ?d))"
    by (rule arg_cong)
  then have "?d = rev (dropWhile py_isspace (rev ?d)) @ rev (takeWhile py_isspace (rev ?d))"
    by (simp only: rev_rev_ident rev_append)
  moreover have "s = takeWhile py_isspace s @ ?d" by simp
  ultimately show ?thesis by (simp add: py_strip_def)
qed

lemma py_in_py_strip: "py_in p (py_strip s) \<Longrightarrow> py_in p s"
proof -
  assume a: "py_in p (py_strip s)"
  have "py_in p (takeWhile py_isspace s @ py_strip s
        @ rev (takeWhile py_isspace (rev (dropWhile py_isspace s))))"
    by (rule py_in_append_left, rule py_in_append_right, rule a)
  with py_strip_decompose [of s] show ?thesis by simp
qed

section \<open>Pattern check before execution\<close>

lemma security_scan_none:
  "security_scan ps text = None \<longleftrightarrow> (\<forall>p \<in> set ps. \<not> py_in p text)"
  by (induction ps) simp_all

lemma security_scan_raises:
  "p \<in> set ps \<Longrightarrow> py_in p text \<Longrightarrow> \<exists>msg. security_scan ps text = Some (ValueError msg)"
  by (induction ps) auto

lemma dangerous_no_newline: "p \<in> set dangerous \<Longrightarrow> CHR 0x0A \<notin> set p"
  by (auto simp: dangerous_def)

lemma script_header_ends: "script_header = butlast script_header @ [CHR 0x0A]"
  by (simp add: script_header_def nl_def)

lemma script_footer_starts: "script_footer = CHR 0x0A # tl script_footer"
  by (simp add: script_footer_def nl_def)

lemma script_header_clean: "list_all (\<lambda>p. \<not> py_in p (butlast script_header)) dangerous"
  by code_simp

lemma script_footer_clean: "list_all (\<lambda>p. \<not> py_in p (tl script_footer)) dangerous"
  by code_simp

lemma wrapped_script_clean:
  assumes p: "p \<in> set dangerous" and t: "\<not> py_in p text"
  shows "\<not> py_in p (script_header @ py_strip text @ script_footer)"
proof
  assume a: "py_in p (script_header @ py_strip text @ script_footer)"
  have c: "CHR 0x0A \<notin> set p" using p by (rule dangerous_no_newline)
  have h: "\<not> py_in p (butlast script_header)"
    using script_header_clean p by (simp add: list_all_iff)
  have f: "\<not> py_in p (tl script_footer)"
    using script_footer_clean p by (simp add: list_all_iff)
  have "script_header @ py_strip text @ script_footer
      = butlast script_header @ CHR 0x0A # (py_strip text @ script_footer)"
    using script_header_ends by (metis append.assoc append_Cons append_Nil)
  with a have "py_in p (butlast script_header @ CHR 0x0A # (py_strip text @ script_footer))"
    by simp
  from py_in_across_char [OF c this] h have "py_in p (py_strip text @ script_footer)" by blast
  moreover have "py_strip text @ script_footer = py_strip text @ CHR 0x0A # tl script_footer"
    using script_footer_starts by simp
  ultimately have "py_in p (py_strip text @ CHR 0x0A # tl script_footer)" by simp
  from py_in_across_char [OF c this] f have "py_in p (py_strip text)" by blast
  then have "py_in p text" by (rule py_in_py_strip)
  with t show False by contradiction
qed

lemma generate_code_clean:
  "generate_code answer = Inr code \<Longrightarrow> p \<in> set dangerous \<Longrightarrow> \<not> py_in p code"
  by (auto simp: generate_code_def Let_def security_scan_none wrapped_script_clean
      split: sum.splits option.splits)

lemma pipeline_run_clean:
  "pipeline_run w n f = Inr code \<Longrightarrow> p \<in> set dangerous \<Longrightarrow> \<not> py_in p code"
  by (auto simp: pipeline_run_def generate_code_clean split: sum.splits)

lemma retry_loop_scripts:
  "s \<in> set (sandbox_scripts (snd (retry_loop w rq ns fb le)))
     \<Longrightarrow> \<exists>n f. pipeline_run w n f = Inr s"
proof (induction ns arbitrary: fb le)
  case Nil
  then show ?case by simp
next
  case (Cons n rest)
  have here: "s \<in> set (sandbox_scripts (snd (attempt_body w rq n fb)))
      \<Longrightarrow> \<exists>n f. pipeline_run w n f = Inr s"
    by (auto simp: attempt_sandbox_scripts split: sum.splits)
  show ?case
  proof (cases "fst (attempt_body w rq n fb)")
    case (Inr response)
    with Cons.prems here show ?thesis by (simp add: retry_loop_step)
  next
    case (Inl e)
    show ?thesis
    proof (cases e)
      case (GeometryError m)
      with Inl Cons.prems here
        Cons.IH [of "Some (parse_freecad_error m)" "Some (GeometryError m)"]
      show ?thesis
        by (auto simp: retry_loop_step sandbox_scripts_append split: if_splits)
    qed (use Inl Cons.prems here in \<open>simp_all add: retry_loop_step\<close>)
  qed
qed

lemma attempt_body_sandbox_cong:
  assumes "llm w' = llm w"
    and "\<forall>n s. (\<forall>p \<in> set dangerous. \<not> py_in p s) \<longrightarrow> sandbox w' n s = sandbox w n s"
  shows "attempt_body w' rq n fb = attempt_body w rq n fb"
proof -
  have pr: "pipeline_run w' n (choose_feedback rq n fb) = pipeline_run w n (choose_feedback rq n fb)"
    using assms(1) by (simp add: pipeline_run_def)
  show ?thesis
  proof (cases "pipeline_run w n (choose_feedback rq n fb)")
    case (Inl e)
    with pr show ?thesis by (simp add: attempt_body_def Let_def)
  next
    case (Inr code)
    then have "\<forall>p \<in> set dangerous. \<not> py_in p code"
      using pipeline_run_clean by blast
    with assms(2) have "sandbox w' n code = sandbox w n code" by blast
    with pr Inr show ?thesis by (simp add: attempt_body_def Let_def)
  qed
qed

lemma retry_loop_sandbox_cong:
  assumes "llm w' = llm w"
    and "\<forall>n s. (\<forall>p \<in> set dangerous. \<not> py_in p s) \<longrightarrow> sandbox w' n s = sandbox w n s"
  shows "retry_loop w' rq ns fb le = retry_loop w rq ns fb le"
proof (induction ns arbitrary: fb le)
  case Nil
  show ?case by simp
next
  case (Cons n rest)
  have ab: "attempt_body w' rq n fb = attempt_body w rq n fb"
    using assms by (rule attempt_body_sandbox_cong)
  show ?case
    by (simp add: retry_loop_step ab Cons.IH split: sum.splits exn.splits)
qed

text \<open>
  Claim C8.  No script handed to the sandbox executor during a job contains one of the
  disallowed patterns, and what the executor would do with such a script has no influence on
  the job.  When the text that the pattern check of an attempt inspects (the code extracted
  from the model answer, wrapped in a function definition if it had none) contains a disallowed
  pattern, the job ends in that attempt with the \<open>ValueError\<close> of the check, and the only
  effect of the attempt is the generation call: the sandbox executor is not invoked, and no
  further attempt is made.
\<close>

theorem disallowed_script_never_executed:
  "(\<forall>s \<in> set (sandbox_scripts (snd (generate_from_text w rq))).
      \<forall>p \<in> set dangerous. \<not> py_in p s)
   \<and> (\<forall>w'. init_raises w' = init_raises w \<and> llm w' = llm w
            \<and> (\<forall>n s. (\<forall>p \<in> set dangerous. \<not> py_in p s) \<longrightarrow> sandbox w' n s = sandbox w n s)
          \<longrightarrow> generate_from_text w' rq = generate_from_text w rq)
   \<and> (\<forall>p \<in> set dangerous.
        llm w n (choose_feedback rq n fb) = Inr answer \<and> extract_code answer = Inr t
          \<and> py_in p (ensure_function t)
        \<longrightarrow> (\<exists>msg. retry_loop w rq (n # rest) fb le
                     = (Inl (ValueError msg), [GenCall n (choose_feedback rq n fb)])))"
proof (intro conjI ballI impI allI)
  fix s p
  assume s: "s \<in> set (sandbox_scripts (snd (generate_from_text w rq)))"
    and p: "p \<in> set dangerous"
  from s have "s \<in> set (sandbox_scripts (snd (retry_loop w rq [0, 1, 2] None None)))"
    by (auto simp: generate_from_text_def split: if_splits option.splits)
  then obtain k f where "pipeline_run w k f = Inr s"
    using retry_loop_scripts by blast
  from pipeline_run_clean [OF this p] show "\<not> py_in p s" .
next
  fix w' :: world
  assume a: "init_raises w' = init_raises w \<and> llm w' = llm w
            \<and> (\<forall>n s. (\<forall>p \<in> set dangerous. \<not> py_in p s) \<longrightarrow> sandbox w' n s = sandbox w n s)"
  then have "retry_loop w' rq [0, 1, 2] None None = retry_loop w rq [0, 1, 2] None None"
    using retry_loop_sandbox_cong by blast
  moreover from a have "init_raises w' = init_raises w" by simp
  ultimately show "generate_from_text w' rq = generate_from_text w rq"
    by (simp only: generate_from_text_def)
next
  fix p
  assume p: "p \<in> set dangerous"
    and a: "llm w n (choose_feedback rq n fb) = Inr answer \<and> extract_code answer = Inr t
          \<and> py_in p (ensure_function t)"
  from security_scan_raises [OF p] a obtain msg
    where "security_scan dangerous (ensure_function t) = Some (ValueError msg)" by blast
  with a have "pipeline_run w n (choose_feedback rq n fb) = Inl (ValueError msg)"
    by (simp add: pipeline_run_def generate_code_def Let_def)
  then have "attempt_body w rq n fb = (Inl (ValueError msg), [GenCall n (choose_feedback rq n fb)])"
    by (simp add: attempt_body_def Let_def)
  then have "retry_loop w rq (n # rest) fb le
      = (Inl (ValueError msg), [GenCall n (choose_feedback rq n fb)])"
    by (simp add: retry_loop_step)
  then show "\<exists>msg. retry_loop w rq (n # rest) fb le
      = (Inl (ValueError msg), [GenCall n (choose_feedback rq n fb)])" by blast
qed

theorem disallowed_script_never_executed_witness:
  "''subprocess'' \<in> set dangerous
   \<and> llm unsafe_world 0 (choose_feedback sample_request 0 None) = Inr ''import subprocess''
   \<and> extract_code ''import subprocess'' = Inr ''import subprocess''
   \<and> py_in ''subprocess'' (ensure_function ''import subprocess'')
   \<and> (\<exists>msg. retry_loop unsafe_world sample_request [0, 1, 2] None None
              = (Inl (ValueError msg), [GenCall 0 (choose_feedback sample_request 0 None)]))
   \<and> sandbox_scripts (snd (generate_from_text unsafe_world sample_request)) = []
   \<and> sample_script \<in> set (sandbox_scripts (snd (generate_from_text sound_world sample_request)))
   \<and> \<not> py_in ''subprocess'' sample_script
   \<and> init_raises picky_world = init_raises sound_world \<and> llm picky_world = llm sound_world
   \<and> sandbox picky_world 0 ''import subprocess'' \<noteq> sandbox sound_world 0 ''import subprocess''
   \<and> generate_from_text picky_world sample_request = generate_from_text sound_world sample_request"
proof -
  have h0: "''subprocess'' \<in> set dangerous" by (simp add: dangerous_def)
  have h1: "llm unsafe_world 0 (choose_feedback sample_request 0 None) = Inr ''import subprocess''"
    by (simp add: unsafe_world_def)
  have h2: "extract_code ''import subprocess'' = Inr ''import subprocess''" by code_simp
  have h3: "py_in ''subprocess'' (ensure_function ''import subprocess'')" by code_simp
  have h4: "sandbox_scripts (snd (generate_from_text unsafe_world sample_request)) = []"
    by code_simp
  have h5: "sample_script
      \<in> set (sandbox_scripts (snd (generate_from_text sound_world sample_request)))"
    by code_simp
  have v1: "init_raises picky_world = init_raises sound_world"
    by (simp add: picky_world_def)
  have v2: "llm picky_world = llm sound_world"
    by (simp add: picky_world_def)
  have v3: "\<forall>n s. (\<forall>p \<in> set dangerous. \<not> py_in p s)
              \<longrightarrow> sandbox picky_world n s = sandbox sound_world n s"
    using h0 by (auto simp: picky_world_def)
  have sub: "py_in ''subprocess'' ''import subprocess''" by code_simp
  have v4: "sandbox picky_world 0 ''import subprocess'' \<noteq> sandbox sound_world 0 ''import subprocess''"
    using sub by (simp add: picky_world_def sound_world_def)
  from disallowed_script_never_executed
    [of unsafe_world sample_request 0 None "''import subprocess''" "''import subprocess''"
        "[1, 2]" None]
    h0 h1 h2 h3
  have r: "\<exists>msg. retry_loop unsafe_world sample_request [0, 1, 2] None None
              = (Inl (ValueError msg), [GenCall 0 (choose_feedback sample_request 0 None)])"
    by blast
  note S = disallowed_script_never_executed [of sound_world sample_request]
  from S h0 h5 have c: "\<not> py_in ''subprocess'' sample_script" by blast
  from S v1 v2 v3
  have e: "generate_from_text picky_world sample_request = generate_from_text sound_world sample_request"
    by blast
  from h0 h1 h2 h3 r h4 h5 c v1 v2 v4 e show ?thesis by blast
qed

end
